theory Spec2Isabelle
  imports Complex_Main
begin

section \<open>JavaScript values as the two verifiers see them\<close>

text \<open>
  Both verifiers work on values that come out of JSON text (the body of an HTTP response,
  the decoded token header, the verified token payload) and read properties from them.
  A number is the rational it denotes: JSON text cannot denote NaN, and \<open>-0\<close> and \<open>0\<close> agree
  under \<open>===\<close> and under truthiness.  \<open>JFun\<close> is a built-in method found on a prototype
  (its name and its \<open>length\<close>); JSON text never produces one, a property read can.
\<close>

datatype jsval =
    JUndefined
  | JNull
  | JBool bool
  | JNum rat
  | JStr string
  | JArr "jsval list"
  | JObj "(string \<times> jsval) list"
  | JFun string nat

record response =
  status :: int
  data :: jsval

text \<open>
  What a \<open>throw\<close> carries.  \<open>Error m\<close> is \<open>new Error(m)\<close>, as the source writes it;
  \<open>TypeError\<close> is raised by the engine (a property read on \<open>undefined\<close> or \<open>null\<close>, a call
  of something that is not a function); \<open>AxiosError r q\<close> is a rejected \<open>axios.get\<close>, with
  \<open>error.response\<close> (when the server answered) and whether \<open>error.request\<close> is set;
  \<open>JwtError\<close> and \<open>JwkError\<close> are thrown by \<open>jsonwebtoken\<close> and \<open>jwk-to-pem\<close>.
\<close>

datatype js_error =
    Error string
  | TypeError
  | AxiosError "response option" bool
  | JwtError string
  | JwkError string

text \<open>The \<open>options\<close> object that \<open>verifyAppleIdToken\<close> hands to \<open>jwt.verify\<close>.\<close>

record verify_options =
  algorithms :: "string list"
  audience :: string
  issuer :: string

text \<open>
  Everything outside the two source files: the process environment, the network, the
  platform's base64 and JSON decoders and the two libraries.  \<open>base64_decode\<close> is
  \<open>Buffer.from(s, 'base64').toString()\<close>, which never throws; \<open>json_parse\<close> is
  \<open>JSON.parse\<close>, with \<open>None\<close> for its SyntaxError.
\<close>

record world =
  getenv :: "string \<Rightarrow> string option"
  axios_get :: "string \<Rightarrow> (string \<times> string) list \<Rightarrow> js_error + response"
  base64_decode :: "string \<Rightarrow> string"
  json_parse :: "string \<Rightarrow> jsval option"
  jwkToPem :: "jsval \<Rightarrow> js_error + string"
  jwt_verify :: "string \<Rightarrow> string \<Rightarrow> verify_options \<Rightarrow> js_error + jsval"

text \<open>
  The calls that leave the function, in the order they happen.  A log line is recorded
  with the text of its template; the interpolated values are not expanded, but an
  exception raised while computing one or while turning it into a string is part of the
  model.
\<close>

datatype event =
    LogInfo string
  | LogError string
  | HttpGet string "(string \<times> string) list"
  | JwkToPem jsval
  | JwtVerify string string verify_options

text \<open>The object both verifiers return.\<close>

record claims =
  sub :: jsval
  email :: jsval
  email_verified :: bool
  name :: jsval

subsection \<open>Operators\<close>

fun truthy :: "jsval \<Rightarrow> bool" where
  "truthy JUndefined = False"
| "truthy JNull = False"
| "truthy (JBool b) = b"
| "truthy (JNum n) = (n \<noteq> 0)"
| "truthy (JStr s) = (s \<noteq> [])"
| "truthy (JArr xs) = True"
| "truthy (JObj kvs) = True"
| "truthy (JFun f n) = True"

text \<open>\<open>a || b\<close>\<close>

definition or_else :: "jsval \<Rightarrow> jsval \<Rightarrow> jsval" where
  "or_else a b = (if truthy a then a else b)"

text \<open>
  \<open>a === b\<close>.  Primitives are compared by value.  Arrays and objects are compared by
  reference, and the two sides of every \<open>===\<close> in the source come from different JSON
  texts or from a literal, so two of them are never the same object.
\<close>

fun strict_eq :: "jsval \<Rightarrow> jsval \<Rightarrow> bool" where
  "strict_eq JUndefined JUndefined = True"
| "strict_eq JNull JNull = True"
| "strict_eq (JBool a) (JBool b) = (a = b)"
| "strict_eq (JNum a) (JNum b) = (a = b)"
| "strict_eq (JStr a) (JStr b) = (a = b)"
| "strict_eq (JFun f m) (JFun g n) = (f = g \<and> m = n)"
| "strict_eq _ _ = False"

text \<open>
  \<open>v.p\<close>.  On a string, an array or a function the prototype members are resolved for the
  property names this program reads (\<open>keys\<close>, \<open>length\<close>, \<open>find\<close>, \<open>kid\<close>, \<open>aud\<close>, \<open>sub\<close>,
  \<open>email\<close>, \<open>email_verified\<close>, \<open>name\<close>, \<open>substring\<close>); \<open>Object.prototype\<close> has none of them.
\<close>

fun get_prop :: "jsval \<Rightarrow> string \<Rightarrow> js_error + jsval" where
  "get_prop JUndefined p = Inl TypeError"
| "get_prop JNull p = Inl TypeError"
| "get_prop (JBool b) p = Inr JUndefined"
| "get_prop (JNum n) p = Inr JUndefined"
| "get_prop (JStr s) p = Inr
     (if p = ''length'' then JNum (of_nat (length s))
      else if p = ''substring'' then JFun ''substring'' 2
      else if p = ''sub'' then JFun ''sub'' 0
      else JUndefined)"
| "get_prop (JArr xs) p = Inr
     (if p = ''length'' then JNum (of_nat (length xs))
      else if p = ''find'' then JFun ''find'' 1
      else if p = ''keys'' then JFun ''keys'' 0
      else JUndefined)"
| "get_prop (JObj kvs) p = Inr (case map_of kvs p of Some v \<Rightarrow> v | None \<Rightarrow> JUndefined)"
| "get_prop (JFun f n) p = Inr
     (if p = ''length'' then JNum (of_nat n)
      else if p = ''name'' then JStr f
      else JUndefined)"

text \<open>\<open>s.substring(0, 6)\<close>: a TypeError unless \<open>s\<close> is a string.\<close>

fun substring_0_6 :: "jsval \<Rightarrow> js_error + string" where
  "substring_0_6 (JStr s) = Inr (take 6 s)"
| "substring_0_6 _ = Inl TypeError"

text \<open>
  Whether \<open>`${v}`\<close> can turn \<open>v\<close> into a string.  An object parsed from JSON that has a
  member named \<open>toString\<close> hides \<open>Object.prototype.toString\<close> behind a value that cannot
  be called, and what \<open>valueOf\<close> then gives is no primitive: a TypeError.  An array is
  joined, which turns each element other than \<open>null\<close> and \<open>undefined\<close> into a string in
  the same way.  Every other value has a string.
\<close>

fun to_string_ok :: "jsval \<Rightarrow> bool" where
  "to_string_ok (JObj kvs) = (map_of kvs ''toString'' = None)"
| "to_string_ok (JArr xs) = list_all to_string_ok xs"
| "to_string_ok v = True"

text \<open>\<open>process.env.NAME || fallback\<close>: an unset and an empty variable both give the fallback.\<close>

definition env_or :: "world \<Rightarrow> string \<Rightarrow> string \<Rightarrow> string" where
  "env_or w var fallback =
     (case getenv w var of
        None \<Rightarrow> fallback
      | Some s \<Rightarrow> if s = [] then fallback else s)"

subsection \<open>Effects and exceptions\<close>

text \<open>
  A computation gives the events it caused and either the exception it threw or its value.
\<close>

type_synonym 'a comp = "event list \<times> (js_error + 'a)"

definition ret :: "'a \<Rightarrow> 'a comp" where
  "ret x = ([], Inr x)"

definition throw :: "js_error \<Rightarrow> 'a comp" where
  "throw e = ([], Inl e)"

definition lift :: "js_error + 'a \<Rightarrow> 'a comp" where
  "lift r = ([], r)"

definition emit :: "event \<Rightarrow> unit comp" where
  "emit ev = ([ev], Inr ())"

definition bind :: "'a comp \<Rightarrow> ('a \<Rightarrow> 'b comp) \<Rightarrow> 'b comp" where
  "bind m f =
     (case m of
        (t, Inl e) \<Rightarrow> (t, Inl e)
      | (t, Inr x) \<Rightarrow> (case f x of (t', r) \<Rightarrow> (t @ t', r)))"

definition seq :: "unit comp \<Rightarrow> 'b comp \<Rightarrow> 'b comp" where
  "seq m k = bind m (\<lambda>_. k)"

text \<open>A value written into a template literal: \<open>`... ${v} ...`\<close>.\<close>

definition interpolate :: "jsval \<Rightarrow> unit comp" where
  "interpolate v = (if to_string_ok v then ret () else throw TypeError)"

text \<open>
  The body of both \<open>catch (error)\<close> blocks, which differ in the provider's name only: the
  message line, then the response's status and data when \<open>error.response\<close> is set, else
  one more line when \<open>error.request\<close> is.
\<close>

fun catch_log :: "string \<Rightarrow> js_error \<Rightarrow> event list" where
  "catch_log provider (AxiosError (Some r) q) =
     [LogError (provider @ '' token verification error: ${error.message || 'Unknown error'}''),
      LogError ''Response status: ${error.response.status}'',
      LogError ''Response data: ${JSON.stringify(error.response.data)}'']"
| "catch_log provider (AxiosError None True) =
     [LogError (provider @ '' token verification error: ${error.message || 'Unknown error'}''),
      LogError (''No response received from '' @ provider)]"
| "catch_log provider e =
     [LogError (provider @ '' token verification error: ${error.message || 'Unknown error'}'')]"

text \<open>
  \<open>try { body } catch (error) { ...; throw new Error('Failed to verify P token') }\<close>
\<close>

definition try_catch :: "string \<Rightarrow> 'a comp \<Rightarrow> 'a comp" where
  "try_catch provider body =
     (case body of
        (t, Inr x) \<Rightarrow> (t, Inr x)
      | (t, Inl e) \<Rightarrow>
          (t @ catch_log provider e, Inl (Error (''Failed to verify '' @ provider @ '' token''))))"

section \<open>googleTokenVerifier.js\<close>

definition tokeninfo_url :: string where
  "tokeninfo_url = ''https://oauth2.googleapis.com/tokeninfo''"

text \<open>Lines 40 to 45: the returned object.\<close>

definition google_claims :: "jsval \<Rightarrow> claims comp" where
  "google_claims d =
     bind (lift (get_prop d ''sub'')) (\<lambda>s.
     bind (lift (get_prop d ''email'')) (\<lambda>e.
     bind (lift (get_prop d ''email_verified'')) (\<lambda>v.
     bind (lift (get_prop d ''name'')) (\<lambda>n.
     ret \<lparr> sub = or_else s (JStr ''''),
           email = or_else e (JStr ''''),
           email_verified = strict_eq v (JStr ''true''),
           name = or_else n (JStr '''') \<rparr>))))"

text \<open>Lines 20 to 45: everything after the response has arrived.\<close>

definition google_check :: "world \<Rightarrow> response \<Rightarrow> claims comp" where
  "google_check w resp =
     bind (lift (get_prop (data resp) ''aud'')) (\<lambda>aud.
     let tokenAudience = or_else aud (JStr '''') in
     seq (interpolate tokenAudience)
    (seq (emit (LogInfo ''Token has audience: ${tokenAudience}''))
     (let webClientId = env_or w ''GOOGLE_CLIENT_ID'' '''';
          iosClientId = env_or w ''GOOGLE_IOS_CLIENT_ID'' ''''
      in
      if \<not> strict_eq tokenAudience (JStr webClientId) \<and> \<not> strict_eq tokenAudience (JStr iosClientId)
      then
        bind (lift (substring_0_6 tokenAudience)) (\<lambda>prefix.
        seq (emit (LogError ''Token audience mismatch: ${tokenAudience.substring(0, 6)}... does not match web (${webIdPrefix}) or iOS (${iosIdPrefix})''))
            (throw (Error ''Token audience mismatch'')))
      else
        bind (lift (get_prop (data resp) ''email'')) (\<lambda>e.
        seq (interpolate (or_else e (JStr ''unknown'')))
       (seq (emit (LogInfo ''Successfully verified Google token for email: ${response.data.email || 'unknown'}''))
            (google_claims (data resp)))))))"

text \<open>Lines 12 to 45: the body of the \<open>try\<close>.\<close>

definition google_try :: "world \<Rightarrow> string \<Rightarrow> claims comp" where
  "google_try w idToken =
     seq (emit (LogInfo ''Attempting to verify Google ID token''))
    (seq (emit (HttpGet tokeninfo_url [(''id_token'', idToken)]))
    (bind (lift (axios_get w tokeninfo_url [(''id_token'', idToken)])) (\<lambda>resp.
     google_check w resp)))"

definition verifyGoogleIdToken :: "world \<Rightarrow> string \<Rightarrow> claims comp" where
  "verifyGoogleIdToken w idToken = try_catch ''Google'' (google_try w idToken)"

section \<open>appleTokenVerifier.js\<close>

definition apple_keys_url :: string where
  "apple_keys_url = ''https://appleid.apple.com/auth/keys''"

text \<open>
  \<open>s.split('.')\<close>: one segment more than there are dots; the empty string gives one empty
  segment.
\<close>

fun split_dot :: "string \<Rightarrow> string list" where
  "split_dot [] = [[]]"
| "split_dot (c # cs) =
     (if c = CHR ''.'' then [] # split_dot cs
      else (case split_dot cs of
              [] \<Rightarrow> [[c]]
            | p # ps \<Rightarrow> (c # p) # ps))"

text \<open>\<open>s.replace(/a/g, b)\<close> for single characters \<open>a\<close> and \<open>b\<close>.\<close>

definition replace_all :: "char \<Rightarrow> char \<Rightarrow> string \<Rightarrow> string" where
  "replace_all a b s = map (\<lambda>c. if c = a then b else c) s"

text \<open>Lines 21 to 24, the two statements of the \<open>if\<close> body.\<close>

definition no_keys :: "jsval comp" where
  "no_keys =
     seq (emit (LogError ''No Apple public keys available''))
         (throw (Error ''No Apple public keys available''))"

text \<open>Lines 18 to 24: fetch the key set; \<open>!keys || keys.length === 0\<close> rejects it.\<close>

definition fetch_keys :: "world \<Rightarrow> jsval comp" where
  "fetch_keys w =
     seq (emit (HttpGet apple_keys_url []))
    (bind (lift (axios_get w apple_keys_url [])) (\<lambda>resp.
     bind (lift (get_prop (data resp) ''keys'')) (\<lambda>keys.
     if \<not> truthy keys then no_keys
     else
       bind (lift (get_prop keys ''length'')) (\<lambda>len.
       if strict_eq len (JNum 0) then no_keys else ret keys))))"

text \<open>
  Lines 27 to 43: split the token and decode its first segment.  The inner \<open>try\<close> turns
  the SyntaxError of \<open>JSON.parse\<close> into \<open>Error('Invalid token header')\<close>.
\<close>

definition decode_header :: "world \<Rightarrow> string \<Rightarrow> jsval comp" where
  "decode_header w identityToken =
     (let tokenParts = split_dot identityToken in
      if length tokenParts \<noteq> 3
      then seq (emit (LogError ''Invalid Apple ID token format''))
               (throw (Error ''Invalid token format''))
      else
        (let base64 = replace_all (CHR ''_'') (CHR ''/'')
                        (replace_all (CHR ''-'') (CHR ''+'') (tokenParts ! 0));
             headerJson = base64_decode w base64
         in case json_parse w headerJson of
              None \<Rightarrow>
                seq (emit (LogError ''Failed to decode token header: ${error.message}''))
                    (throw (Error ''Invalid token header''))
            | Some header \<Rightarrow> ret header))"

text \<open>
  \<open>keys.find(key => key.kid === header.kid)\<close> on the elements of an array: the first
  element for which the callback holds, \<open>undefined\<close> when there is none; the callback
  reads \<open>key.kid\<close>, then \<open>header.kid\<close>, and either read may throw.
\<close>

fun find_key :: "jsval list \<Rightarrow> jsval \<Rightarrow> js_error + jsval" where
  "find_key [] header = Inr JUndefined"
| "find_key (key # ks) header =
     (case get_prop key ''kid'' of
        Inl e \<Rightarrow> Inl e
      | Inr a \<Rightarrow>
          (case get_prop header ''kid'' of
             Inl e \<Rightarrow> Inl e
           | Inr b \<Rightarrow> if strict_eq a b then Inr key else find_key ks header))"

text \<open>
  Lines 46 to 50.  Only an array has a \<open>find\<close> that can be called; on any other value of
  \<open>keys\<close> the call is a TypeError.  The log line of the failure writes \<open>header.kid\<close> into
  its text before the error is thrown.
\<close>

definition find_matching :: "jsval \<Rightarrow> jsval \<Rightarrow> jsval comp" where
  "find_matching keys header =
     (case keys of
        JArr ks \<Rightarrow>
          bind (lift (find_key ks header)) (\<lambda>matchingKey.
          if \<not> truthy matchingKey
          then
            bind (lift (get_prop header ''kid'')) (\<lambda>kid.
            seq (interpolate kid)
           (seq (emit (LogError ''No matching Apple public key found for kid: ${header.kid}''))
                (throw (Error ''No matching Apple public key found''))))
          else ret matchingKey)
      | _ \<Rightarrow> throw TypeError)"

text \<open>Lines 56 and 60 to 64: the options of the verification.\<close>

definition apple_options :: "world \<Rightarrow> verify_options" where
  "apple_options w =
     \<lparr> algorithms = [''RS256''],
       audience = env_or w ''APPLE_CLIENT_ID'' ''com.aicalorie.app'',
       issuer = ''https://appleid.apple.com'' \<rparr>"

text \<open>Lines 53 to 65: convert the key, verify the token.\<close>

definition apple_verify :: "world \<Rightarrow> string \<Rightarrow> jsval \<Rightarrow> jsval comp" where
  "apple_verify w identityToken matchingKey =
     seq (emit (JwkToPem matchingKey))
    (bind (lift (jwkToPem w matchingKey)) (\<lambda>pem.
     seq (emit (JwtVerify identityToken pem (apple_options w)))
         (lift (jwt_verify w identityToken pem (apple_options w)))))"

text \<open>Lines 67 to 75: the success line of the log and the returned object.\<close>

definition apple_claims :: "jsval \<Rightarrow> claims comp" where
  "apple_claims payload =
     bind (lift (get_prop payload ''sub'')) (\<lambda>s0.
     seq (interpolate (or_else s0 (JStr ''unknown'')))
    (seq (emit (LogInfo ''Successfully verified Apple token for subject: ${payload.sub || 'unknown'}''))
    (bind (lift (get_prop payload ''sub'')) (\<lambda>s.
     bind (lift (get_prop payload ''email'')) (\<lambda>e.
     bind (lift (get_prop payload ''email_verified'')) (\<lambda>v.
     ret \<lparr> sub = or_else s (JStr ''''),
           email = or_else e (JStr ''''),
           email_verified = strict_eq v (JBool True),
           name = JStr '''' \<rparr>))))))"

text \<open>Lines 14 to 75: the body of the \<open>try\<close>.\<close>

definition apple_try :: "world \<Rightarrow> string \<Rightarrow> claims comp" where
  "apple_try w identityToken =
     seq (emit (LogInfo ''Attempting to verify Apple ID token''))
    (bind (fetch_keys w) (\<lambda>keys.
     bind (decode_header w identityToken) (\<lambda>header.
     bind (find_matching keys header) (\<lambda>matchingKey.
     bind (apple_verify w identityToken matchingKey) apple_claims))))"

definition verifyAppleIdToken :: "world \<Rightarrow> string \<Rightarrow> claims comp" where
  "verifyAppleIdToken w identityToken = try_catch ''Apple'' (apple_try w identityToken)"

section \<open>Reading the trace\<close>

fun is_network :: "event \<Rightarrow> bool" where
  "is_network (HttpGet u ps) = True"
| "is_network _ = False"

fun is_signature_check :: "event \<Rightarrow> bool" where
  "is_signature_check (JwtVerify tok pem opts) = True"
| "is_signature_check _ = False"

section \<open>The verification primitive\<close>

text \<open>
  Modelled from the spec: \<open>jwt.verify\<close> belongs to the \<open>jsonwebtoken\<close> package, which is
  not under \<open>src/\<close>; the verifier only calls it.  The spec requires of this primitive that
  it verifies the signature with RS256, that the \<open>aud\<close> claim equals the identifier and
  the \<open>iss\<close> claim the issuer it was given, and that it rejects a token whose \<open>exp\<close> is in
  the past.  \<open>rs256_valid tok pem\<close> says that the signature of \<open>tok\<close> is a valid RS256
  signature under the key \<open>pem\<close>, and \<open>now\<close> is the time of the call.
\<close>

record crypto =
  rs256_valid :: "string \<Rightarrow> string \<Rightarrow> bool"
  now :: rat

text \<open>Modelled from the spec: a payload whose \<open>exp\<close> is in the past.\<close>

definition expired :: "rat \<Rightarrow> jsval \<Rightarrow> bool" where
  "expired t payload =
     (case get_prop payload ''exp'' of
        Inr (JNum e) \<Rightarrow> e < t
      | _ \<Rightarrow> False)"

text \<open>
  Modelled from the spec: the primitive of a world keeps this contract when each payload
  it returns has passed the four checks.
\<close>

definition jwt_sound :: "crypto \<Rightarrow> world \<Rightarrow> bool" where
  "jwt_sound cr w =
     (\<forall>tok pem opts payload.
        jwt_verify w tok pem opts = Inr payload \<longrightarrow>
          (algorithms opts = [''RS256''] \<longrightarrow> rs256_valid cr tok pem) \<and>
          get_prop payload ''aud'' = Inr (JStr (audience opts)) \<and>
          get_prop payload ''iss'' = Inr (JStr (issuer opts)) \<and>
          \<not> expired (now cr) payload)"

section \<open>Sample worlds\<close>

text \<open>
  Concrete surroundings on which the theorems below are exercised: tokens whose headers
  are \<open>{"kid":"k1"}\<close> (two of them), \<open>{"kid":"k9"}\<close>, \<open>{"kid":{"toString":1}}\<close> and
  \<open>null\<close>, a key set holding the keys \<open>k2\<close> and \<open>k1\<close>, and a primitive that accepts the
  two tokens of \<open>k1\<close> under that key, the first for the audience \<open>com.aicalorie.app\<close> and
  the second for the audience \<open>com.example.ios\<close>.
\<close>

definition good_token :: string where
  "good_token = ''eyJraWQiOiJrMSJ9.e30.c2ln''"

definition stale_token :: string where
  "stale_token = ''eyJraWQiOiJrOSJ9.e30.c2ln''"

definition custom_token :: string where
  "custom_token = ''eyJraWQiOiJrMSJ9.e30.Y3VzdG9t''"

definition odd_kid_token :: string where
  "odd_kid_token = ''eyJraWQiOnsidG9TdHJpbmciOjF9fQ.e30.c2ln''"

definition null_header_token :: string where
  "null_header_token = ''bnVsbA.e30.c2ln''"

definition key_k1 :: jsval where
  "key_k1 = JObj [(''kty'', JStr ''RSA''), (''kid'', JStr ''k1''), (''alg'', JStr ''RS256'')]"

definition key_k2 :: jsval where
  "key_k2 = JObj [(''kty'', JStr ''RSA''), (''kid'', JStr ''k2''), (''alg'', JStr ''RS256'')]"

definition demo_payload :: jsval where
  "demo_payload =
     JObj [(''iss'', JStr ''https://appleid.apple.com''), (''aud'', JStr ''com.aicalorie.app''),
           (''exp'', JNum 2000), (''sub'', JStr ''001234.abc''),
           (''email'', JStr ''user@example.com''), (''email_verified'', JBool True)]"

definition custom_payload :: jsval where
  "custom_payload =
     JObj [(''iss'', JStr ''https://appleid.apple.com''), (''aud'', JStr ''com.example.ios''),
           (''exp'', JNum 2000), (''sub'', JStr ''005678.def'')]"

definition demo_world ::
  "(string \<times> string) list \<Rightarrow> js_error + response \<Rightarrow> js_error + response \<Rightarrow> world" where
  \<open>demo_world vars keys_reply tokeninfo_reply =
     \<lparr> getenv = map_of vars,
       axios_get = (\<lambda>url ps.
          if url = apple_keys_url \<and> ps = [] then keys_reply
          else if url = tokeninfo_url then tokeninfo_reply
          else Inl (AxiosError None True)),
       base64_decode = (\<lambda>s.
          if s = ''eyJraWQiOiJrMSJ9'' then ''{"kid":"k1"}''
          else if s = ''eyJraWQiOiJrOSJ9'' then ''{"kid":"k9"}''
          else if s = ''eyJraWQiOnsidG9TdHJpbmciOjF9fQ'' then ''{"kid":{"toString":1}}''
          else if s = ''bnVsbA'' then ''null''
          else []),
       json_parse = (\<lambda>s.
          if s = ''{"kid":"k1"}'' then Some (JObj [(''kid'', JStr ''k1'')])
          else if s = ''{"kid":"k9"}'' then Some (JObj [(''kid'', JStr ''k9'')])
          else if s = ''{"kid":{"toString":1}}''
            then Some (JObj [(''kid'', JObj [(''toString'', JNum 1)])])
          else if s = ''null'' then Some JNull
          else None),
       jwkToPem = (\<lambda>k.
          if k = key_k1 then Inr ''PEM-k1'' else Inl (JwkError ''Unsupported key type'')),
       jwt_verify = (\<lambda>tok pem opts.
          if tok = good_token \<and> pem = ''PEM-k1'' \<and>
             opts = \<lparr> algorithms = [''RS256''], audience = ''com.aicalorie.app'',
                      issuer = ''https://appleid.apple.com'' \<rparr>
          then Inr demo_payload
          else if tok = custom_token \<and> pem = ''PEM-k1'' \<and>
             opts = \<lparr> algorithms = [''RS256''], audience = ''com.example.ios'',
                      issuer = ''https://appleid.apple.com'' \<rparr>
          then Inr custom_payload
          else Inl (JwtError ''invalid signature'')) \<rparr>\<close>

definition demo_crypto :: crypto where
  "demo_crypto =
     \<lparr> rs256_valid = (\<lambda>tok pem. (tok = good_token \<or> tok = custom_token) \<and> pem = ''PEM-k1''),
       now = 1000 \<rparr>"

definition two_keys :: "js_error + response" where
  "two_keys = Inr \<lparr> status = 200, data = JObj [(''keys'', JArr [key_k2, key_k1])] \<rparr>"

definition zero_keys :: "js_error + response" where
  "zero_keys = Inr \<lparr> status = 200, data = JObj [(''keys'', JArr [])] \<rparr>"

definition unreachable :: "js_error + response" where
  "unreachable = Inl (AxiosError None True)"

definition json_200 :: "(string \<times> jsval) list \<Rightarrow> js_error + response" where
  "json_200 kvs = Inr \<lparr> status = 200, data = JObj kvs \<rparr>"

text \<open>Apple's keys are served and the Apple identifier is not configured.\<close>

definition apple_demo :: world where
  "apple_demo = demo_world [] two_keys unreachable"

definition apple_demo_claims :: claims where
  "apple_demo_claims =
     \<lparr> sub = JStr ''001234.abc'', email = JStr ''user@example.com'',
       email_verified = True, name = JStr '''' \<rparr>"

text \<open>Apple's keys are served and the Apple identifier is configured.\<close>

definition apple_configured_demo :: world where
  "apple_configured_demo =
     demo_world [(''APPLE_CLIENT_ID'', ''com.example.ios'')] two_keys unreachable"

definition custom_claims :: claims where
  "custom_claims =
     \<lparr> sub = JStr ''005678.def'', email = JStr '''', email_verified = False, name = JStr '''' \<rparr>"

text \<open>Only the iOS identifier is configured, and the introspection names it.\<close>

definition google_ios_demo :: world where
  "google_ios_demo =
     demo_world [(''GOOGLE_IOS_CLIENT_ID'', ''ios-client'')] unreachable
       (json_200 [(''aud'', JStr ''ios-client''), (''sub'', JStr ''1184''),
                   (''email_verified'', JStr ''true'')])"

definition google_ios_claims :: claims where
  "google_ios_claims =
     \<lparr> sub = JStr ''1184'', email = JStr '''', email_verified = True, name = JStr '''' \<rparr>"

text \<open>Only the web identifier is configured, and the introspection names another client.\<close>

definition google_other_demo :: world where
  "google_other_demo =
     demo_world [(''GOOGLE_CLIENT_ID'', ''web-client'')] unreachable
       (json_200 [(''aud'', JStr ''someone-else''), (''sub'', JStr ''1184'')])"

text \<open>Both providers answer; the introspection names the web identifier.\<close>

definition both_demo :: world where
  "both_demo =
     demo_world [(''GOOGLE_CLIENT_ID'', ''web-client'')] two_keys
       (json_200 [(''aud'', JStr ''web-client''), (''sub'', JStr ''1184'')])"

definition both_google_claims :: claims where
  "both_google_claims =
     \<lparr> sub = JStr ''1184'', email = JStr '''', email_verified = False, name = JStr '''' \<rparr>"

section \<open>Computations: value and trace\<close>

lemma snd_bind: "snd (bind m f) = (case snd m of Inl e \<Rightarrow> Inl e | Inr x \<Rightarrow> snd (f x))"
  by (simp add: bind_def split: prod.splits sum.splits)

lemma fst_bind: "fst (bind m f) = (case snd m of Inl e \<Rightarrow> fst m | Inr x \<Rightarrow> fst m @ fst (f x))"
  by (simp add: bind_def split: prod.splits sum.splits)

lemma snd_lift: "snd (lift r) = r"
  by (simp add: lift_def)

lemma fst_lift: "fst (lift r) = []"
  by (simp add: lift_def)

lemma snd_seq_emit: "snd (seq (emit ev) k) = snd k"
  by (simp add: seq_def emit_def bind_def split: prod.splits)

lemma fst_seq_emit: "fst (seq (emit ev) k) = ev # fst k"
  by (simp add: seq_def emit_def bind_def split: prod.splits)

lemma snd_ret: "snd (ret x) = Inr x"
  by (simp add: ret_def)

lemma fst_ret: "fst (ret x) = []"
  by (simp add: ret_def)

lemma snd_throw: "snd (throw e) = Inl e"
  by (simp add: throw_def)

lemma fst_throw: "fst (throw e) = []"
  by (simp add: throw_def)

lemma snd_try_catch:
  "snd (try_catch p b) =
     (case snd b of
        Inl e \<Rightarrow> Inl (Error (''Failed to verify '' @ p @ '' token''))
      | Inr x \<Rightarrow> Inr x)"
  by (simp add: try_catch_def split: prod.splits sum.splits)

lemma fst_try_catch:
  "fst (try_catch p b) = (case snd b of Inl e \<Rightarrow> fst b @ catch_log p e | Inr x \<Rightarrow> fst b)"
  by (simp add: try_catch_def split: prod.splits sum.splits)

lemma snd_seq_interpolate:
  "snd (seq (interpolate v) k) = (if to_string_ok v then snd k else Inl TypeError)"
  by (simp add: seq_def interpolate_def ret_def throw_def bind_def split: prod.splits)

lemma fst_seq_interpolate:
  "fst (seq (interpolate v) k) = (if to_string_ok v then fst k else [])"
  by (simp add: seq_def interpolate_def ret_def throw_def bind_def split: prod.splits)

lemmas comp_simps = snd_bind fst_bind snd_lift fst_lift snd_seq_emit fst_seq_emit snd_ret fst_ret
  snd_throw fst_throw snd_try_catch fst_try_catch snd_seq_interpolate fst_seq_interpolate

lemmas demo_defs = demo_world_def good_token_def stale_token_def key_k1_def key_k2_def
  custom_token_def odd_kid_token_def null_header_token_def custom_payload_def
  apple_configured_demo_def custom_claims_def
  demo_payload_def demo_crypto_def two_keys_def zero_keys_def unreachable_def json_200_def
  apple_demo_def apple_demo_claims_def google_ios_demo_def google_ios_claims_def
  google_other_demo_def both_demo_def both_google_claims_def

lemmas apple_defs = verifyAppleIdToken_def apple_try_def fetch_keys_def no_keys_def
  decode_header_def find_matching_def apple_verify_def apple_claims_def apple_options_def
  apple_keys_url_def replace_all_def env_or_def or_else_def tokeninfo_url_def

lemmas google_defs = verifyGoogleIdToken_def google_try_def google_check_def google_claims_def
  tokeninfo_url_def apple_keys_url_def env_or_def or_else_def

lemma filter_network_catch_log: "filter is_network (catch_log p e) = []"
  by (induction p e rule: catch_log.induct) simp_all


section \<open>Operators\<close>

lemma strict_eq_JStr: "strict_eq v (JStr s) = (v = JStr s)"
  by (cases v) auto

lemma strict_eq_JBool: "strict_eq v (JBool b) = (v = JBool b)"
  by (cases v) auto

lemma get_prop_errors: "get_prop v p = Inl e \<Longrightarrow> e = TypeError"
  by (cases v) auto

lemma substring_errors: "substring_0_6 v = Inl e \<Longrightarrow> e = TypeError"
  by (cases v) auto

lemma length_split_dot: "length (split_dot s) = Suc (length (filter (\<lambda>c. c = CHR ''.'') s))"
  by (induction s) (auto split: list.splits)

section \<open>The stages of the Google verifier\<close>

lemma snd_google_claims_unfold:
  "snd (google_claims d) =
     (case get_prop d ''sub'' of Inl e \<Rightarrow> Inl e | Inr s \<Rightarrow>
      case get_prop d ''email'' of Inl e \<Rightarrow> Inl e | Inr em \<Rightarrow>
      case get_prop d ''email_verified'' of Inl e \<Rightarrow> Inl e | Inr v \<Rightarrow>
      case get_prop d ''name'' of Inl e \<Rightarrow> Inl e | Inr n \<Rightarrow>
        Inr \<lparr> sub = or_else s (JStr ''''), email = or_else em (JStr ''''),
              email_verified = strict_eq v (JStr ''true''), name = or_else n (JStr '''') \<rparr>)"
  by (simp add: google_claims_def comp_simps split: sum.splits)

lemma fst_google_claims: "fst (google_claims d) = []"
  by (simp add: google_claims_def comp_simps split: sum.splits)

lemma snd_google_check_unfold:
  "snd (google_check w resp) =
     (case get_prop (data resp) ''aud'' of Inl e \<Rightarrow> Inl e | Inr aud \<Rightarrow>
        if \<not> to_string_ok (or_else aud (JStr '''')) then Inl TypeError
        else if \<not> strict_eq (or_else aud (JStr '''')) (JStr (env_or w ''GOOGLE_CLIENT_ID'' '''')) \<and>
           \<not> strict_eq (or_else aud (JStr '''')) (JStr (env_or w ''GOOGLE_IOS_CLIENT_ID'' ''''))
        then (case substring_0_6 (or_else aud (JStr '''')) of
                Inl e \<Rightarrow> Inl e | Inr p \<Rightarrow> Inl (Error ''Token audience mismatch''))
        else (case get_prop (data resp) ''email'' of
                Inl e \<Rightarrow> Inl e
              | Inr em \<Rightarrow>
                  if to_string_ok (or_else em (JStr ''unknown''))
                  then snd (google_claims (data resp)) else Inl TypeError))"
  by (simp add: google_check_def comp_simps Let_def split: sum.splits)

lemma snd_google_claims:
  "snd (google_claims d) = Inr c \<Longrightarrow>
     \<exists>s e v n. get_prop d ''sub'' = Inr s \<and> get_prop d ''email'' = Inr e \<and>
       get_prop d ''email_verified'' = Inr v \<and> get_prop d ''name'' = Inr n \<and>
       c = \<lparr> sub = or_else s (JStr ''''), email = or_else e (JStr ''''),
             email_verified = strict_eq v (JStr ''true''), name = or_else n (JStr '''') \<rparr>"
  unfolding snd_google_claims_unfold by (auto split: sum.splits)

lemma snd_google_check:
  "snd (google_check w resp) = Inr c \<Longrightarrow> snd (google_claims (data resp)) = Inr c"
  unfolding snd_google_check_unfold by (auto split: sum.splits if_splits)

lemma snd_google_try_unfold:
  "snd (google_try w idToken) =
     (case axios_get w tokeninfo_url [(''id_token'', idToken)] of
        Inl e \<Rightarrow> Inl e
      | Inr resp \<Rightarrow> snd (google_check w resp))"
  by (simp add: google_try_def comp_simps)

lemma snd_google_try:
  "snd (google_try w idToken) = Inr c \<Longrightarrow>
     \<exists>resp. axios_get w tokeninfo_url [(''id_token'', idToken)] = Inr resp \<and>
            snd (google_check w resp) = Inr c"
  unfolding snd_google_try_unfold by (auto split: sum.splits)

lemma snd_verifyGoogle:
  "snd (verifyGoogleIdToken w idToken) = Inr c \<Longrightarrow> snd (google_try w idToken) = Inr c"
  by (simp add: verifyGoogleIdToken_def snd_try_catch split: sum.splits)

lemma google_success:
  assumes "snd (verifyGoogleIdToken w idToken) = Inr c"
  shows "\<exists>resp. axios_get w tokeninfo_url [(''id_token'', idToken)] = Inr resp \<and>
           snd (google_claims (data resp)) = Inr c"
  using snd_google_try [OF snd_verifyGoogle [OF assms]] snd_google_check by blast

lemma google_claims_errors: "snd (google_claims d) = Inl e \<Longrightarrow> e = TypeError"
  unfolding snd_google_claims_unfold
  by (auto split: sum.splits dest: get_prop_errors)

lemma google_check_errors:
  "snd (google_check w resp) = Inl e \<Longrightarrow> e = Error ''Token audience mismatch'' \<or> e = TypeError"
  unfolding snd_google_check_unfold
  by (auto split: sum.splits if_splits dest: get_prop_errors substring_errors google_claims_errors)

lemma filter_network_google_check: "filter is_network (fst (google_check w resp)) = []"
  by (simp add: google_check_def comp_simps Let_def fst_google_claims split: sum.splits)

lemma filter_network_google_try:
  "filter is_network (fst (google_try w idToken)) =
     [HttpGet tokeninfo_url [(''id_token'', idToken)]]"
  by (simp add: google_try_def comp_simps filter_network_google_check split: sum.splits)

lemma snd_google_check_env:
  assumes "getenv w' ''GOOGLE_CLIENT_ID'' = getenv w ''GOOGLE_CLIENT_ID''"
    and "getenv w' ''GOOGLE_IOS_CLIENT_ID'' = getenv w ''GOOGLE_IOS_CLIENT_ID''"
  shows "snd (google_check w' resp) = snd (google_check w resp)"
proof -
  have "env_or w' ''GOOGLE_CLIENT_ID'' [] = env_or w ''GOOGLE_CLIENT_ID'' []"
    and "env_or w' ''GOOGLE_IOS_CLIENT_ID'' [] = env_or w ''GOOGLE_IOS_CLIENT_ID'' []"
    using assms by (simp_all add: env_or_def)
  then show ?thesis
    by (simp add: snd_google_check_unfold cong: sum.case_cong if_cong)
qed

text \<open>
  Where the audience check does what it is meant to do: an \<open>aud\<close> that is a non-empty
  string and differs from both identifiers is a mismatch.
\<close>

lemma google_audience_mismatch:
  assumes "axios_get w tokeninfo_url [(''id_token'', idToken)] = Inr resp"
    and "get_prop (data resp) ''aud'' = Inr (JStr a)"
    and "a \<noteq> []"
    and "a \<noteq> env_or w ''GOOGLE_CLIENT_ID'' []"
    and "a \<noteq> env_or w ''GOOGLE_IOS_CLIENT_ID'' []"
  shows "snd (google_try w idToken) = Inl (Error ''Token audience mismatch'') \<and>
         snd (verifyGoogleIdToken w idToken) = Inl (Error ''Failed to verify Google token'')"
  using assms
  by (simp add: verifyGoogleIdToken_def snd_google_try_unfold snd_google_check_unfold
        or_else_def snd_try_catch)

section \<open>The stages of the Apple verifier\<close>

lemma find_key_Inr:
  "find_key ks header = Inr key \<Longrightarrow> truthy key \<Longrightarrow>
     key \<in> set ks \<and>
     (\<exists>a b. get_prop key ''kid'' = Inr a \<and> get_prop header ''kid'' = Inr b \<and> strict_eq a b)"
  by (induction ks) (auto split: sum.splits if_splits)


lemma snd_find_matching:
  "snd (find_matching keys header) = Inr key \<Longrightarrow>
     \<exists>ks. keys = JArr ks \<and> key \<in> set ks \<and>
       (\<exists>a b. get_prop key ''kid'' = Inr a \<and> get_prop header ''kid'' = Inr b \<and> strict_eq a b)"
  by (cases keys)
     (auto simp: find_matching_def comp_simps split: sum.splits if_splits dest: find_key_Inr)

lemma snd_apple_verify:
  "snd (apple_verify w tok key) = Inr payload \<Longrightarrow>
     \<exists>pem. jwkToPem w key = Inr pem \<and> jwt_verify w tok pem (apple_options w) = Inr payload"
  by (auto simp: apple_verify_def comp_simps split: sum.splits)

lemma fst_apple_verify:
  "snd (apple_verify w tok key) = Inr payload \<Longrightarrow> jwkToPem w key = Inr pem \<Longrightarrow>
     fst (apple_verify w tok key) = [JwkToPem key, JwtVerify tok pem (apple_options w)]"
  by (auto simp: apple_verify_def comp_simps split: sum.splits)

lemma snd_apple_claims:
  "snd (apple_claims payload) = Inr c \<Longrightarrow>
     \<exists>s e v. get_prop payload ''sub'' = Inr s \<and> get_prop payload ''email'' = Inr e \<and>
       get_prop payload ''email_verified'' = Inr v \<and>
       c = \<lparr> sub = or_else s (JStr ''''), email = or_else e (JStr ''''),
             email_verified = strict_eq v (JBool True), name = JStr '''' \<rparr>"
  by (auto simp: apple_claims_def comp_simps split: sum.splits if_splits)

lemma snd_apple_try:
  "snd (apple_try w tok) = Inr c \<Longrightarrow>
     \<exists>keys header key payload.
       snd (fetch_keys w) = Inr keys \<and> snd (decode_header w tok) = Inr header \<and>
       snd (find_matching keys header) = Inr key \<and>
       snd (apple_verify w tok key) = Inr payload \<and> snd (apple_claims payload) = Inr c"
  by (auto simp: apple_try_def comp_simps split: sum.splits)

lemma fst_apple_try:
  "snd (fetch_keys w) = Inr keys \<Longrightarrow> snd (decode_header w tok) = Inr header \<Longrightarrow>
   snd (find_matching keys header) = Inr key \<Longrightarrow> snd (apple_verify w tok key) = Inr payload \<Longrightarrow>
   set (fst (apple_verify w tok key)) \<subseteq> set (fst (apple_try w tok))"
  by (auto simp: apple_try_def comp_simps split: sum.splits)

lemma snd_verifyApple:
  "snd (verifyAppleIdToken w tok) = Inr c \<Longrightarrow> snd (apple_try w tok) = Inr c"
  by (simp add: verifyAppleIdToken_def snd_try_catch split: sum.splits)

lemma fst_verifyApple:
  "snd (verifyAppleIdToken w tok) = Inr c \<Longrightarrow>
     fst (verifyAppleIdToken w tok) = fst (apple_try w tok)"
  by (simp add: verifyAppleIdToken_def snd_try_catch fst_try_catch split: sum.splits)

lemma apple_success:
  assumes "snd (verifyAppleIdToken w tok) = Inr c"
  shows "\<exists>pem payload. jwt_verify w tok pem (apple_options w) = Inr payload \<and>
           snd (apple_claims payload) = Inr c"
  using snd_apple_try [OF snd_verifyApple [OF assms]] snd_apple_verify by blast


lemma demo_sound: "jwt_sound demo_crypto (demo_world vars kr gr)"
  by (simp add: jwt_sound_def demo_defs expired_def)

text \<open>
  A body from which \<open>keys\<close> cannot even be read (\<open>null\<close>) ends the fetch with the
  engine's exception, again before any signature check.
\<close>

lemma apple_unreadable_body:
  assumes "axios_get w apple_keys_url [] = Inr resp"
    and "get_prop (data resp) ''keys'' = Inl e"
  shows "snd (apple_try w identityToken) = Inl TypeError \<and>
         snd (verifyAppleIdToken w identityToken) = Inl (Error ''Failed to verify Apple token'') \<and>
         filter is_signature_check (fst (verifyAppleIdToken w identityToken)) = []"
  using assms get_prop_errors [OF assms(2)]
  by (simp add: verifyAppleIdToken_def apple_try_def fetch_keys_def comp_simps)

text \<open>
  Once a key has been found and converted, the token is handed to the primitive with the
  options of \<open>apple_options\<close>, and a refusal of the primitive is a failure of the verifier.
\<close>

lemma apple_verify_called:
  assumes "snd (fetch_keys w) = Inr keys"
    and "snd (decode_header w identityToken) = Inr header"
    and "snd (find_matching keys header) = Inr key"
    and "jwkToPem w key = Inr pem"
  shows "JwtVerify identityToken pem (apple_options w)
           \<in> set (fst (verifyAppleIdToken w identityToken))"
    and "jwt_verify w identityToken pem (apple_options w) = Inl e \<Longrightarrow>
           snd (verifyAppleIdToken w identityToken) = Inl (Error ''Failed to verify Apple token'')"
  using assms
  by (auto simp: verifyAppleIdToken_def apple_try_def apple_verify_def comp_simps
           split: sum.splits)

section \<open>Google: the audience check\<close>

text \<open>
  C1: a Google introspection response whose \<open>aud\<close> equals neither configured identifier
  must be refused with the audience mismatch and never yield claims, an empty or unset
  identifier matching nothing.  The code replaces a missing or empty \<open>aud\<close> by the empty
  string and an unset identifier by the empty string too, and then compares them: with
  the web identifier configured and the iOS identifier unset, a response that carries no
  \<open>aud\<close> at all passes the check and the verifier returns its claims.
\<close>

theorem google_missing_audience_accepted:
  "snd (verifyGoogleIdToken
          (demo_world [(''GOOGLE_CLIENT_ID'', ''web-client'')] unreachable
             (json_200 [(''sub'', JStr ''1184''), (''email'', JStr ''user@example.com'')]))
          ''x.y.z'') =
     Inr \<lparr> sub = JStr ''1184'', email = JStr ''user@example.com'',
           email_verified = False, name = JStr '''' \<rparr>"
  by (simp add: google_defs demo_defs comp_simps Let_def)

section \<open>The subject of a successful verification\<close>

text \<open>
  C2, as stated: every successful verification returns a non-empty subject.  A Google
  response with the right audience and no \<open>sub\<close> verifies, and the subject returned is
  the empty string.
\<close>

theorem google_success_with_empty_subject:
  "snd (verifyGoogleIdToken
          (demo_world [(''GOOGLE_CLIENT_ID'', ''web-client'')] unreachable
             (json_200 [(''aud'', JStr ''web-client''), (''email'', JStr ''user@example.com'')]))
          ''x.y.z'') =
     Inr \<lparr> sub = JStr '''', email = JStr ''user@example.com'',
           email_verified = False, name = JStr '''' \<rparr>"
  by (simp add: google_defs demo_defs comp_simps Let_def)

text \<open>
  C2, amended: on every successful verification, Apple or Google, the subject returned is
  the provider's \<open>sub\<close> when that value is truthy and the empty string otherwise; so the
  subject is non-empty exactly when the provider supplied one.
\<close>

theorem subject_is_sub_or_empty:
  "(snd (verifyGoogleIdToken w idToken) = Inr c \<longrightarrow>
      (\<exists>resp s. axios_get w tokeninfo_url [(''id_token'', idToken)] = Inr resp \<and>
         get_prop (data resp) ''sub'' = Inr s \<and>
         sub c = (if truthy s then s else JStr ''''))) \<and>
   (snd (verifyAppleIdToken w identityToken) = Inr c' \<longrightarrow>
      (\<exists>pem payload s. jwt_verify w identityToken pem (apple_options w) = Inr payload \<and>
         get_prop payload ''sub'' = Inr s \<and>
         sub c' = (if truthy s then s else JStr '''')))"
proof (intro conjI impI)
  assume "snd (verifyGoogleIdToken w idToken) = Inr c"
  then obtain resp where r: "axios_get w tokeninfo_url [(''id_token'', idToken)] = Inr resp"
    and "snd (google_claims (data resp)) = Inr c"
    using google_success by blast
  then obtain s where "get_prop (data resp) ''sub'' = Inr s" "sub c = or_else s (JStr '''')"
    using snd_google_claims by fastforce
  with r show "\<exists>resp s. axios_get w tokeninfo_url [(''id_token'', idToken)] = Inr resp \<and>
         get_prop (data resp) ''sub'' = Inr s \<and> sub c = (if truthy s then s else JStr '''')"
    by (auto simp: or_else_def)
next
  assume "snd (verifyAppleIdToken w identityToken) = Inr c'"
  then obtain pem payload where
    p: "jwt_verify w identityToken pem (apple_options w) = Inr payload"
    and cl: "snd (apple_claims payload) = Inr c'"
    using apple_success by blast
  from cl obtain s where "get_prop payload ''sub'' = Inr s" "sub c' = or_else s (JStr '''')"
    using snd_apple_claims by fastforce
  with p show "\<exists>pem payload s. jwt_verify w identityToken pem (apple_options w) = Inr payload \<and>
         get_prop payload ''sub'' = Inr s \<and> sub c' = (if truthy s then s else JStr '''')"
    by (auto simp: or_else_def)
qed

text \<open>Both verifiers succeed in one world, each with the subject its provider sent.\<close>

theorem subject_is_sub_or_empty_witness:
  "snd (verifyGoogleIdToken both_demo ''x.y.z'') = Inr both_google_claims \<and>
   snd (verifyAppleIdToken both_demo good_token) = Inr apple_demo_claims \<and>
   (\<exists>resp s. axios_get both_demo tokeninfo_url [(''id_token'', ''x.y.z'')] = Inr resp \<and>
      get_prop (data resp) ''sub'' = Inr s \<and>
      sub both_google_claims = (if truthy s then s else JStr '''')) \<and>
   (\<exists>pem payload s. jwt_verify both_demo good_token pem (apple_options both_demo) = Inr payload \<and>
      get_prop payload ''sub'' = Inr s \<and>
      sub apple_demo_claims = (if truthy s then s else JStr ''''))"
proof -
  have g: "snd (verifyGoogleIdToken both_demo ''x.y.z'') = Inr both_google_claims"
    by (simp add: google_defs demo_defs comp_simps Let_def)
  have a: "snd (verifyAppleIdToken both_demo good_token) = Inr apple_demo_claims"
    by (simp add: apple_defs demo_defs comp_simps Let_def)
  show ?thesis
    using subject_is_sub_or_empty [of both_demo "''x.y.z''" both_google_claims good_token
        apple_demo_claims] g a
    by blast
qed

section \<open>Apple: what a success has passed\<close>

text \<open>
  C3: whenever \<open>verifyAppleIdToken\<close> returns claims, the key set held a key whose \<open>kid\<close>
  equals the header's, that key was converted, and the token was verified against it
  with RS256 as the only algorithm, with the configured Apple client identifier
  (\<open>com.aicalorie.app\<close> when unconfigured or empty) as audience and with
  \<open>https://appleid.apple.com\<close> as issuer; with a primitive that keeps its contract, the
  signature is valid under that key, \<open>aud\<close> is the configured identifier when one is
  configured and \<open>com.aicalorie.app\<close> when none is, \<open>iss\<close> is Apple's issuer and \<open>exp\<close>
  is not in the past.  So a token failing any of these checks never yields claims.
\<close>

theorem apple_checks_delegated:
  assumes sound: "jwt_sound cr w"
    and ok: "snd (verifyAppleIdToken w identityToken) = Inr c"
  shows "\<exists>ks header key pem payload.
           snd (fetch_keys w) = Inr (JArr ks) \<and>
           snd (decode_header w identityToken) = Inr header \<and>
           snd (find_matching (JArr ks) header) = Inr key \<and>
           key \<in> set ks \<and>
           (\<exists>a b. get_prop key ''kid'' = Inr a \<and> get_prop header ''kid'' = Inr b \<and> strict_eq a b) \<and>
           jwkToPem w key = Inr pem \<and>
           JwtVerify identityToken pem (apple_options w) \<in> set (fst (verifyAppleIdToken w identityToken)) \<and>
           algorithms (apple_options w) = [''RS256''] \<and>
           jwt_verify w identityToken pem (apple_options w) = Inr payload \<and>
           rs256_valid cr identityToken pem \<and>
           get_prop payload ''aud'' = Inr (JStr (env_or w ''APPLE_CLIENT_ID'' ''com.aicalorie.app'')) \<and>
           (getenv w ''APPLE_CLIENT_ID'' \<in> {None, Some []} \<longrightarrow>
              get_prop payload ''aud'' = Inr (JStr ''com.aicalorie.app'')) \<and>
           (\<forall>s. getenv w ''APPLE_CLIENT_ID'' = Some s \<and> s \<noteq> [] \<longrightarrow>
              audience (apple_options w) = s \<and> get_prop payload ''aud'' = Inr (JStr s)) \<and>
           issuer (apple_options w) = ''https://appleid.apple.com'' \<and>
           get_prop payload ''iss'' = Inr (JStr ''https://appleid.apple.com'') \<and>
           \<not> expired (now cr) payload"
proof -
  from ok have tr: "snd (apple_try w identityToken) = Inr c"
    by (rule snd_verifyApple)
  then obtain keys header key payload where
    f: "snd (fetch_keys w) = Inr keys" and
    h: "snd (decode_header w identityToken) = Inr header" and
    m: "snd (find_matching keys header) = Inr key" and
    v: "snd (apple_verify w identityToken key) = Inr payload"
    using snd_apple_try by blast
  from m obtain ks where ks: "keys = JArr ks" "key \<in> set ks"
    "\<exists>a b. get_prop key ''kid'' = Inr a \<and> get_prop header ''kid'' = Inr b \<and> strict_eq a b"
    using snd_find_matching by blast
  from v obtain pem where pem: "jwkToPem w key = Inr pem"
    and jv: "jwt_verify w identityToken pem (apple_options w) = Inr payload"
    using snd_apple_verify by blast
  have "JwtVerify identityToken pem (apple_options w) \<in> set (fst (apple_try w identityToken))"
    using fst_apple_try [OF f h m v] fst_apple_verify [OF v pem] by auto
  then have ev: "JwtVerify identityToken pem (apple_options w)
      \<in> set (fst (verifyAppleIdToken w identityToken))"
    using fst_verifyApple [OF ok] by simp
  have alg: "algorithms (apple_options w) = [''RS256'']"
    by (simp add: apple_options_def)
  from sound jv alg have chk:
    "rs256_valid cr identityToken pem"
    "get_prop payload ''aud'' = Inr (JStr (audience (apple_options w)))"
    "get_prop payload ''iss'' = Inr (JStr (issuer (apple_options w)))"
    "\<not> expired (now cr) payload"
    unfolding jwt_sound_def by blast+
  have aud: "audience (apple_options w) = env_or w ''APPLE_CLIENT_ID'' ''com.aicalorie.app''"
    and iss: "issuer (apple_options w) = ''https://appleid.apple.com''"
    by (simp_all add: apple_options_def)
  have dflt: "getenv w ''APPLE_CLIENT_ID'' \<in> {None, Some []} \<longrightarrow>
      env_or w ''APPLE_CLIENT_ID'' ''com.aicalorie.app'' = ''com.aicalorie.app''"
    by (auto simp: env_or_def)
  from f ks(1) have f': "snd (fetch_keys w) = Inr (JArr ks)" by simp
  from m ks(1) have m': "snd (find_matching (JArr ks) header) = Inr key" by simp
  from chk(2) aud dflt have a1:
    "get_prop payload ''aud'' = Inr (JStr (env_or w ''APPLE_CLIENT_ID'' ''com.aicalorie.app''))"
    and a2: "getenv w ''APPLE_CLIENT_ID'' \<in> {None, Some []} \<longrightarrow>
              get_prop payload ''aud'' = Inr (JStr ''com.aicalorie.app'')"
    by simp_all
  from chk(3) iss have i1: "get_prop payload ''iss'' = Inr (JStr ''https://appleid.apple.com'')"
    by simp
  have cfg: "\<forall>s. getenv w ''APPLE_CLIENT_ID'' = Some s \<and> s \<noteq> [] \<longrightarrow>
      env_or w ''APPLE_CLIENT_ID'' ''com.aicalorie.app'' = s"
    by (auto simp: env_or_def)
  from chk(2) aud cfg have a3:
    "\<forall>s. getenv w ''APPLE_CLIENT_ID'' = Some s \<and> s \<noteq> [] \<longrightarrow>
       audience (apple_options w) = s \<and> get_prop payload ''aud'' = Inr (JStr s)"
    by simp
  show ?thesis
    using f' h m' ks(2,3) pem ev alg jv chk(1) a1 a2 a3 iss i1 chk(4) by blast
qed

text \<open>
  The sample primitive keeps the contract.  With no Apple identifier configured the first
  sample token verifies, and the payload it was verified with names the default one.
  With \<open>com.example.ios\<close> configured the token issued for that audience verifies, and the
  first token, issued for the default audience, is refused.
\<close>

theorem apple_checks_delegated_witness:
  "jwt_sound demo_crypto apple_demo \<and>
   snd (verifyAppleIdToken apple_demo good_token) = Inr apple_demo_claims \<and>
   getenv apple_demo ''APPLE_CLIENT_ID'' \<in> {None, Some []} \<and>
   (\<exists>pem payload.
      JwtVerify good_token pem (apple_options apple_demo)
        \<in> set (fst (verifyAppleIdToken apple_demo good_token)) \<and>
      jwt_verify apple_demo good_token pem (apple_options apple_demo) = Inr payload \<and>
      rs256_valid demo_crypto good_token pem \<and>
      get_prop payload ''aud'' = Inr (JStr ''com.aicalorie.app'') \<and>
      get_prop payload ''iss'' = Inr (JStr ''https://appleid.apple.com'') \<and>
      \<not> expired (now demo_crypto) payload) \<and>
   jwt_sound demo_crypto apple_configured_demo \<and>
   snd (verifyAppleIdToken apple_configured_demo custom_token) = Inr custom_claims \<and>
   getenv apple_configured_demo ''APPLE_CLIENT_ID'' = Some ''com.example.ios'' \<and>
   (\<exists>pem payload.
      JwtVerify custom_token pem (apple_options apple_configured_demo)
        \<in> set (fst (verifyAppleIdToken apple_configured_demo custom_token)) \<and>
      jwt_verify apple_configured_demo custom_token pem (apple_options apple_configured_demo) =
        Inr payload \<and>
      audience (apple_options apple_configured_demo) = ''com.example.ios'' \<and>
      get_prop payload ''aud'' = Inr (JStr ''com.example.ios'')) \<and>
   snd (verifyAppleIdToken apple_configured_demo good_token) =
     Inl (Error ''Failed to verify Apple token'')"
proof -
  have s': "jwt_sound demo_crypto apple_configured_demo"
    unfolding apple_configured_demo_def by (rule demo_sound)
  have a': "snd (verifyAppleIdToken apple_configured_demo custom_token) = Inr custom_claims"
    by (simp add: apple_defs demo_defs comp_simps Let_def)
  have e': "getenv apple_configured_demo ''APPLE_CLIENT_ID'' = Some ''com.example.ios''"
    by (simp add: demo_defs)
  have n': "''com.example.ios'' \<noteq> []"
    by simp
  have r': "snd (verifyAppleIdToken apple_configured_demo good_token) =
     Inl (Error ''Failed to verify Apple token'')"
    by (simp add: apple_defs demo_defs comp_simps Let_def)
  have s: "jwt_sound demo_crypto apple_demo"
    unfolding apple_demo_def by (rule demo_sound)
  have a: "snd (verifyAppleIdToken apple_demo good_token) = Inr apple_demo_claims"
    by (simp add: apple_defs demo_defs comp_simps Let_def)
  have e: "getenv apple_demo ''APPLE_CLIENT_ID'' \<in> {None, Some []}"
    by (simp add: demo_defs)
  have first: "\<exists>pem payload.
      JwtVerify good_token pem (apple_options apple_demo)
        \<in> set (fst (verifyAppleIdToken apple_demo good_token)) \<and>
      jwt_verify apple_demo good_token pem (apple_options apple_demo) = Inr payload \<and>
      rs256_valid demo_crypto good_token pem \<and>
      get_prop payload ''aud'' = Inr (JStr ''com.aicalorie.app'') \<and>
      get_prop payload ''iss'' = Inr (JStr ''https://appleid.apple.com'') \<and>
      \<not> expired (now demo_crypto) payload"
    using apple_checks_delegated [OF s a] e by blast
  have second: "\<exists>pem payload.
      JwtVerify custom_token pem (apple_options apple_configured_demo)
        \<in> set (fst (verifyAppleIdToken apple_configured_demo custom_token)) \<and>
      jwt_verify apple_configured_demo custom_token pem (apple_options apple_configured_demo) =
        Inr payload \<and>
      audience (apple_options apple_configured_demo) = ''com.example.ios'' \<and>
      get_prop payload ''aud'' = Inr (JStr ''com.example.ios'')"
    using apple_checks_delegated [OF s' a'] e' n' by blast
  show ?thesis
    using s a e first s' a' e' second r' by (intro conjI)
qed

section \<open>The \<open>email_verified\<close> flag\<close>

text \<open>
  C4: when \<open>verifyAppleIdToken\<close> returns claims, their \<open>email_verified\<close> is true if and
  only if the \<open>email_verified\<close> field of the verified payload is the boolean \<open>true\<close>; the
  string \<open>"true"\<close> gives false, and so does every other value and an absent field.
\<close>

theorem apple_email_verified:
  assumes "snd (verifyAppleIdToken w identityToken) = Inr c"
  shows "\<exists>pem payload.
           jwt_verify w identityToken pem (apple_options w) = Inr payload \<and>
           (email_verified c \<longleftrightarrow> get_prop payload ''email_verified'' = Inr (JBool True)) \<and>
           (get_prop payload ''email_verified'' = Inr (JStr ''true'') \<longrightarrow> \<not> email_verified c)"
proof -
  from assms obtain pem payload where
    p: "jwt_verify w identityToken pem (apple_options w) = Inr payload"
    and cl: "snd (apple_claims payload) = Inr c"
    using apple_success by blast
  from cl obtain v where "get_prop payload ''email_verified'' = Inr v"
    and "email_verified c = strict_eq v (JBool True)"
    using snd_apple_claims by fastforce
  then have "(email_verified c \<longleftrightarrow> get_prop payload ''email_verified'' = Inr (JBool True)) \<and>
           (get_prop payload ''email_verified'' = Inr (JStr ''true'') \<longrightarrow> \<not> email_verified c)"
    by (auto simp: strict_eq_JBool)
  with p show ?thesis by blast
qed

text \<open>The sample payload carries the boolean \<open>true\<close>, and the flag returned is true.\<close>

theorem apple_email_verified_witness:
  "snd (verifyAppleIdToken apple_demo good_token) = Inr apple_demo_claims \<and>
   email_verified apple_demo_claims \<and>
   (\<exists>pem payload.
      jwt_verify apple_demo good_token pem (apple_options apple_demo) = Inr payload \<and>
      (email_verified apple_demo_claims \<longleftrightarrow>
         get_prop payload ''email_verified'' = Inr (JBool True)) \<and>
      (get_prop payload ''email_verified'' = Inr (JStr ''true'') \<longrightarrow>
         \<not> email_verified apple_demo_claims))"
proof -
  have a: "snd (verifyAppleIdToken apple_demo good_token) = Inr apple_demo_claims"
    by (simp add: apple_defs demo_defs comp_simps Let_def)
  have b: "email_verified apple_demo_claims"
    by (simp add: demo_defs)
  show ?thesis
    using apple_email_verified [OF a] a b by blast
qed

text \<open>
  C5: when \<open>verifyGoogleIdToken\<close> returns claims, their \<open>email_verified\<close> is true if and
  only if the \<open>email_verified\<close> field of the introspection response is the string
  \<open>"true"\<close>; the strings \<open>"false"\<close> and \<open>"1"\<close>, the boolean \<open>true\<close> and an absent field all
  give false.
\<close>

theorem google_email_verified:
  assumes "snd (verifyGoogleIdToken w idToken) = Inr c"
  shows "\<exists>resp. axios_get w tokeninfo_url [(''id_token'', idToken)] = Inr resp \<and>
           (email_verified c \<longleftrightarrow> get_prop (data resp) ''email_verified'' = Inr (JStr ''true'')) \<and>
           (get_prop (data resp) ''email_verified''
              \<in> {Inr (JStr ''false''), Inr (JStr ''1''), Inr (JBool True), Inr JUndefined}
            \<longrightarrow> \<not> email_verified c)"
proof -
  from assms obtain resp where
    r: "axios_get w tokeninfo_url [(''id_token'', idToken)] = Inr resp"
    and "snd (google_claims (data resp)) = Inr c"
    using google_success by blast
  then obtain v where "get_prop (data resp) ''email_verified'' = Inr v"
    and "email_verified c = strict_eq v (JStr ''true'')"
    using snd_google_claims by fastforce
  then have "(email_verified c \<longleftrightarrow> get_prop (data resp) ''email_verified'' = Inr (JStr ''true''))
     \<and> (get_prop (data resp) ''email_verified''
              \<in> {Inr (JStr ''false''), Inr (JStr ''1''), Inr (JBool True), Inr JUndefined}
            \<longrightarrow> \<not> email_verified c)"
    by (auto simp: strict_eq_JStr)
  with r show ?thesis by blast
qed

text \<open>
  The introspection names the iOS identifier, the web identifier being unset, and says
  \<open>"true"\<close>; the flag returned is true.  With the boolean \<open>true\<close> in place of the string the
  flag returned is false.
\<close>

theorem google_email_verified_witness:
  "snd (verifyGoogleIdToken google_ios_demo ''x.y.z'') = Inr google_ios_claims \<and>
   email_verified google_ios_claims \<and>
   (\<exists>resp. axios_get google_ios_demo tokeninfo_url [(''id_token'', ''x.y.z'')] = Inr resp \<and>
      (email_verified google_ios_claims \<longleftrightarrow>
         get_prop (data resp) ''email_verified'' = Inr (JStr ''true''))) \<and>
   snd (verifyGoogleIdToken
          (demo_world [(''GOOGLE_IOS_CLIENT_ID'', ''ios-client'')] unreachable
             (json_200 [(''aud'', JStr ''ios-client''), (''sub'', JStr ''1184''),
                         (''email_verified'', JBool True)]))
          ''x.y.z'') =
     Inr \<lparr> sub = JStr ''1184'', email = JStr '''', email_verified = False, name = JStr '''' \<rparr>"
proof -
  have a: "snd (verifyGoogleIdToken google_ios_demo ''x.y.z'') = Inr google_ios_claims"
    by (simp add: google_defs demo_defs comp_simps Let_def)
  have b: "email_verified google_ios_claims"
    by (simp add: demo_defs)
  have c: "snd (verifyGoogleIdToken
          (demo_world [(''GOOGLE_IOS_CLIENT_ID'', ''ios-client'')] unreachable
             (json_200 [(''aud'', JStr ''ios-client''), (''sub'', JStr ''1184''),
                         (''email_verified'', JBool True)]))
          ''x.y.z'') =
     Inr \<lparr> sub = JStr ''1184'', email = JStr '''', email_verified = False, name = JStr '''' \<rparr>"
    by (simp add: google_defs demo_defs comp_simps Let_def)
  show ?thesis
    using google_email_verified [OF a] a b c by blast
qed

section \<open>Apple: the failures before the signature check\<close>

text \<open>
  C6: once the key set has been fetched and accepted, a token that does not split into
  exactly three segments at its dots is refused with \<open>Error('Invalid token format')\<close>,
  whatever the configuration, and the caller gets the verifier's failure.
\<close>

theorem apple_malformed_token:
  assumes "snd (fetch_keys w) = Inr keys"
    and "length (split_dot identityToken) \<noteq> 3"
  shows "snd (apple_try w identityToken) = Inl (Error ''Invalid token format'') \<and>
         snd (verifyAppleIdToken w identityToken) = Inl (Error ''Failed to verify Apple token'')"
  using assms
  by (simp add: verifyAppleIdToken_def apple_try_def decode_header_def comp_simps)

text \<open>A token of two segments, with the sample key set.\<close>

theorem apple_malformed_token_witness:
  "snd (fetch_keys apple_demo) = Inr (JArr [key_k2, key_k1]) \<and>
   length (split_dot ''eyJraWQiOiJrMSJ9.e30'') \<noteq> 3 \<and>
   snd (apple_try apple_demo ''eyJraWQiOiJrMSJ9.e30'') = Inl (Error ''Invalid token format'') \<and>
   snd (verifyAppleIdToken apple_demo ''eyJraWQiOiJrMSJ9.e30'') =
     Inl (Error ''Failed to verify Apple token'')"
proof -
  have f: "snd (fetch_keys apple_demo) = Inr (JArr [key_k2, key_k1])"
    by (simp add: fetch_keys_def no_keys_def apple_keys_url_def demo_defs comp_simps)
  have l: "length (split_dot ''eyJraWQiOiJrMSJ9.e30'') \<noteq> 3"
    by simp
  show ?thesis
    using apple_malformed_token [OF f l] f l by blast
qed

text \<open>
  C7: when the key-set response has no \<open>keys\<close>, a falsy \<open>keys\<close> or an empty \<open>keys\<close> array,
  the verifier fails with \<open>Error('No Apple public keys available')\<close>, the caller gets the
  verifier's failure, and no signature check appears in the trace.
\<close>

theorem apple_no_keys:
  assumes "axios_get w apple_keys_url [] = Inr resp"
    and "get_prop (data resp) ''keys'' = Inr keys"
    and "\<not> truthy keys \<or> keys = JArr []"
  shows "snd (apple_try w identityToken) = Inl (Error ''No Apple public keys available'') \<and>
         snd (verifyAppleIdToken w identityToken) = Inl (Error ''Failed to verify Apple token'') \<and>
         filter is_signature_check (fst (verifyAppleIdToken w identityToken)) = []"
  using assms
  by (auto simp: verifyAppleIdToken_def apple_try_def fetch_keys_def no_keys_def comp_simps)

text \<open>An empty \<open>keys\<close> array, and a body without \<open>keys\<close>, for an otherwise good token.\<close>

theorem apple_no_keys_witness:
  "axios_get (demo_world [] zero_keys unreachable) apple_keys_url [] =
     Inr \<lparr> status = 200, data = JObj [(''keys'', JArr [])] \<rparr> \<and>
   snd (apple_try (demo_world [] zero_keys unreachable) good_token) =
     Inl (Error ''No Apple public keys available'') \<and>
   filter is_signature_check
     (fst (verifyAppleIdToken (demo_world [] zero_keys unreachable) good_token)) = [] \<and>
   snd (apple_try (demo_world [] (json_200 []) unreachable) good_token) =
     Inl (Error ''No Apple public keys available'')"
proof -
  have r: "axios_get (demo_world [] zero_keys unreachable) apple_keys_url [] =
     Inr \<lparr> status = 200, data = JObj [(''keys'', JArr [])] \<rparr>"
    by (simp add: demo_defs)
  have k: "get_prop (data \<lparr> status = 200, data = JObj [(''keys'', JArr [])] \<rparr>) ''keys'' =
     Inr (JArr [])"
    by simp
  have r': "axios_get (demo_world [] (json_200 []) unreachable) apple_keys_url [] =
     Inr \<lparr> status = 200, data = JObj [] \<rparr>"
    by (simp add: demo_defs)
  have k': "get_prop (data \<lparr> status = 200, data = JObj [] \<rparr>) ''keys'' = Inr JUndefined"
    by simp
  show ?thesis
    using apple_no_keys [OF r k, of good_token] apple_no_keys [OF r' k', of good_token] r
    by simp
qed

section \<open>Apple: a key identifier without a key\<close>

lemma find_key_no_match:
  assumes "\<forall>k\<in>set ks. \<not> (\<exists>a b. get_prop k ''kid'' = Inr a \<and>
             get_prop header ''kid'' = Inr b \<and> strict_eq a b)"
  shows "find_key ks header = Inr JUndefined \<or> find_key ks header = Inl TypeError"
  using assms
  by (induction ks) (auto split: sum.splits dest: get_prop_errors)






section \<open>What the caller sees of a failure\<close>

text \<open>
  C9: whatever exception the body of a verifier ends with (malformed token, provider
  unreachable, no key, missing key, failed signature or claim check, audience mismatch,
  an exception of the engine), the caller of \<open>verifyAppleIdToken\<close> gets
  \<open>Error('Failed to verify Apple token')\<close> and the caller of \<open>verifyGoogleIdToken\<close> gets
  \<open>Error('Failed to verify Google token')\<close>: one fixed message for each verifier, which
  does not tell the failures apart.
\<close>

theorem generic_failure:
  "(\<forall>e. snd (apple_try w identityToken) = Inl e \<longrightarrow>
        snd (verifyAppleIdToken w identityToken) = Inl (Error ''Failed to verify Apple token'')) \<and>
   (\<forall>e. snd (google_try w idToken) = Inl e \<longrightarrow>
        snd (verifyGoogleIdToken w idToken) = Inl (Error ''Failed to verify Google token'')) \<and>
   (\<forall>x. snd (verifyAppleIdToken w identityToken) = Inl x \<longrightarrow>
        x = Error ''Failed to verify Apple token'') \<and>
   (\<forall>x. snd (verifyGoogleIdToken w idToken) = Inl x \<longrightarrow>
        x = Error ''Failed to verify Google token'')"
  by (auto simp: verifyAppleIdToken_def verifyGoogleIdToken_def snd_try_catch split: sum.splits)

text \<open>
  Six failures of different kinds: Apple unreachable, a token of one segment, a \<open>kid\<close>
  without a key, a signature the primitive refuses, and for Google an audience mismatch
  and an unreachable provider.
\<close>

theorem generic_failure_witness:
  "snd (apple_try google_other_demo good_token) = Inl (AxiosError None True) \<and>
   snd (verifyAppleIdToken google_other_demo good_token) =
     Inl (Error ''Failed to verify Apple token'') \<and>
   snd (google_try google_other_demo ''x.y.z'') = Inl (Error ''Token audience mismatch'') \<and>
   snd (verifyGoogleIdToken google_other_demo ''x.y.z'') =
     Inl (Error ''Failed to verify Google token'') \<and>
   snd (apple_try apple_demo ''abc'') = Inl (Error ''Invalid token format'') \<and>
   snd (verifyAppleIdToken apple_demo ''abc'') = Inl (Error ''Failed to verify Apple token'') \<and>
   snd (google_try apple_demo ''x.y.z'') = Inl (AxiosError None True) \<and>
   snd (verifyGoogleIdToken apple_demo ''x.y.z'') = Inl (Error ''Failed to verify Google token'') \<and>
   snd (apple_try apple_demo stale_token) = Inl (Error ''No matching Apple public key found'') \<and>
   snd (verifyAppleIdToken apple_demo stale_token) = Inl (Error ''Failed to verify Apple token'') \<and>
   snd (apple_try apple_demo ''eyJraWQiOiJrMSJ9.e30.AAAA'') = Inl (JwtError ''invalid signature'') \<and>
   snd (verifyAppleIdToken apple_demo ''eyJraWQiOiJrMSJ9.e30.AAAA'') =
     Inl (Error ''Failed to verify Apple token'')"
proof -
  have a1: "snd (apple_try google_other_demo good_token) = Inl (AxiosError None True)"
    by (simp add: apple_defs demo_defs comp_simps Let_def)
  have g1: "snd (google_try google_other_demo ''x.y.z'') = Inl (Error ''Token audience mismatch'')"
    by (simp add: google_defs demo_defs comp_simps Let_def)
  have a2: "snd (apple_try apple_demo ''abc'') = Inl (Error ''Invalid token format'')"
    by (simp add: apple_defs demo_defs comp_simps Let_def)
  have g2: "snd (google_try apple_demo ''x.y.z'') = Inl (AxiosError None True)"
    by (simp add: google_defs demo_defs comp_simps Let_def)
  have a3: "snd (apple_try apple_demo stale_token) =
      Inl (Error ''No matching Apple public key found'')"
    by (simp add: apple_defs demo_defs comp_simps Let_def)
  have a4: "snd (apple_try apple_demo ''eyJraWQiOiJrMSJ9.e30.AAAA'') =
      Inl (JwtError ''invalid signature'')"
    by (simp add: apple_defs demo_defs comp_simps Let_def)
  note v4 = generic_failure [THEN conjunct1, rule_format, OF a4]
  note v1 = generic_failure [THEN conjunct1, rule_format, OF a1]
  note w1 = generic_failure [THEN conjunct2, THEN conjunct1, rule_format, OF g1]
  note v2 = generic_failure [THEN conjunct1, rule_format, OF a2]
  note w2 = generic_failure [THEN conjunct2, THEN conjunct1, rule_format, OF g2]
  note v3 = generic_failure [THEN conjunct1, rule_format, OF a3]
  show ?thesis
    by (intro conjI a1 v1 g1 w1 a2 v2 g2 w2 a3 v3 a4 v4)
qed

section \<open>Google: no look at the token\<close>

text \<open>
  C10: \<open>verifyGoogleIdToken\<close> never inspects the token.  For every string, the empty one
  included, the trace holds exactly one network call, the introspection request with
  that string as \<open>id_token\<close>; the body of the function ends with no exception other than
  the audience mismatch, an exception of the engine on the response, or whatever the
  request itself was rejected with; and two calls that get the same answer from the
  provider under the same two client identifiers have the same outcome, whatever the two
  tokens are.
\<close>

theorem google_no_structural_validation:
  "filter is_network (fst (verifyGoogleIdToken w idToken)) =
       [HttpGet tokeninfo_url [(''id_token'', idToken)]] \<and>
   (\<forall>e. snd (google_try w idToken) = Inl e \<longrightarrow>
        e = Error ''Token audience mismatch'' \<or> e = TypeError \<or>
        axios_get w tokeninfo_url [(''id_token'', idToken)] = Inl e) \<and>
   (axios_get w' tokeninfo_url [(''id_token'', idToken')] =
      axios_get w tokeninfo_url [(''id_token'', idToken)] \<and>
    getenv w' ''GOOGLE_CLIENT_ID'' = getenv w ''GOOGLE_CLIENT_ID'' \<and>
    getenv w' ''GOOGLE_IOS_CLIENT_ID'' = getenv w ''GOOGLE_IOS_CLIENT_ID'' \<longrightarrow>
    snd (verifyGoogleIdToken w' idToken') = snd (verifyGoogleIdToken w idToken))"
proof (intro conjI allI impI)
  show "filter is_network (fst (verifyGoogleIdToken w idToken)) =
       [HttpGet tokeninfo_url [(''id_token'', idToken)]]"
    by (simp add: verifyGoogleIdToken_def fst_try_catch filter_network_google_try
          filter_network_catch_log split: sum.splits)
next
  fix e assume "snd (google_try w idToken) = Inl e"
  then show "e = Error ''Token audience mismatch'' \<or> e = TypeError \<or>
        axios_get w tokeninfo_url [(''id_token'', idToken)] = Inl e"
    unfolding snd_google_try_unfold
    by (auto split: sum.splits dest: google_check_errors)
next
  assume a: "axios_get w' tokeninfo_url [(''id_token'', idToken')] =
      axios_get w tokeninfo_url [(''id_token'', idToken)] \<and>
    getenv w' ''GOOGLE_CLIENT_ID'' = getenv w ''GOOGLE_CLIENT_ID'' \<and>
    getenv w' ''GOOGLE_IOS_CLIENT_ID'' = getenv w ''GOOGLE_IOS_CLIENT_ID''"
  then have "snd (google_check w' r) = snd (google_check w r)" for r
    using snd_google_check_env [of w' w r] by simp
  with a have "snd (google_try w' idToken') = snd (google_try w idToken)"
    by (simp add: snd_google_try_unfold cong: sum.case_cong)
  then show "snd (verifyGoogleIdToken w' idToken') = snd (verifyGoogleIdToken w idToken)"
    by (simp add: verifyGoogleIdToken_def snd_try_catch)
qed

text \<open>
  The empty string is sent as it is and verifies when the provider says so; a string of
  five segments against a mismatching answer fails with the mismatch, as the empty string
  does against the same answer.
\<close>

theorem google_no_structural_validation_witness:
  "filter is_network (fst (verifyGoogleIdToken google_ios_demo [])) =
     [HttpGet tokeninfo_url [(''id_token'', [])]] \<and>
   snd (verifyGoogleIdToken google_ios_demo []) = Inr google_ios_claims \<and>
   snd (google_try google_other_demo ''a.b.c.d.e'') = Inl (Error ''Token audience mismatch'') \<and>
   axios_get google_other_demo tokeninfo_url [(''id_token'', [])] =
     axios_get google_other_demo tokeninfo_url [(''id_token'', ''a.b.c.d.e'')] \<and>
   snd (verifyGoogleIdToken google_other_demo []) =
     snd (verifyGoogleIdToken google_other_demo ''a.b.c.d.e'')"
proof -
  have ok: "snd (verifyGoogleIdToken google_ios_demo []) = Inr google_ios_claims"
    by (simp add: google_defs demo_defs comp_simps Let_def)
  have bad: "snd (google_try google_other_demo ''a.b.c.d.e'') =
      Inl (Error ''Token audience mismatch'')"
    by (simp add: google_defs demo_defs comp_simps Let_def)
  have same: "axios_get google_other_demo tokeninfo_url [(''id_token'', [])] =
      axios_get google_other_demo tokeninfo_url [(''id_token'', ''a.b.c.d.e'')]"
    by (simp add: demo_defs tokeninfo_url_def apple_keys_url_def)
  show ?thesis
    using google_no_structural_validation [of google_ios_demo "[]" google_ios_demo "[]"]
      google_no_structural_validation
        [of google_other_demo "''a.b.c.d.e''" google_other_demo "[]"]
      ok bad same
    by simp
qed

end
